theory Spec2Isabelle
  imports Complex_Main
begin

section \<open>Shunt sound checker: the numeric pipeline of app.py\<close>

text \<open>
  The development follows \<^verbatim>\<open>src/app.py\<close>: \<^verbatim>\<open>load_audio_data\<close>,
  \<^verbatim>\<open>perform_fft_analysis\<close>, the band-ratio computation and the verdict inside
  \<^verbatim>\<open>main\<close>, and \<^verbatim>\<open>plot_spectrogram\<close>.

  Numbers: numpy's floating-point samples, frequencies and magnitudes are modelled as
  finite real numbers, and rounding is not modelled. In the band-ratio computation the
  float64 results are of type \<open>npfloat\<close> below: a sum, product or quotient whose
  exact value leaves the float64 range overflows to an infinity, and \<^verbatim>\<open>inf - inf\<close>,
  \<^verbatim>\<open>inf / inf\<close> and \<^verbatim>\<open>0 / 0\<close> are \<^verbatim>\<open>nan\<close>.
\<close>

subsection \<open>Errors and numpy helpers\<close>

datatype error = ValueError | ZeroDivisionError | IndexError

text \<open>
  Indexing with a boolean array, \<^verbatim>\<open>a[mask]\<close>: numpy raises IndexError when the
  lengths of the two arrays differ, and otherwise keeps the entries whose bit is set, in order.
\<close>

definition mask_index :: "'a list \<Rightarrow> bool list \<Rightarrow> error + 'a list" where
  "mask_index a bmask =
     (if length bmask \<noteq> length a then Inl IndexError
      else Inr (map fst (filter snd (zip a bmask))))"

text \<open>
  A numpy float64 value: a finite number, \<^verbatim>\<open>inf\<close>, \<^verbatim>\<open>-inf\<close> or \<^verbatim>\<open>nan\<close>.
  The largest finite float64 is \<open>(2 ^ 53 - 1) * 2 ^ 971\<close>, about 1.797e308.
\<close>

datatype npfloat = Fin real | PInf | NInf | NaN

definition float64_max :: real where
  "float64_max = (2 ^ 53 - 1) * 2 ^ 971"

text \<open>
  The float64 holding the exact result \<open>x\<close> of an operation on finite operands: beyond
  the float64 range the operation overflows to an infinity and does not raise.
\<close>

definition np_overflow :: "real \<Rightarrow> npfloat" where
  "np_overflow x =
     (if x > float64_max then PInf
      else if x < - float64_max then NInf
      else Fin x)"

text \<open>Addition \<^verbatim>\<open>x + y\<close> of two float64 values.\<close>

fun np_add :: "npfloat \<Rightarrow> npfloat \<Rightarrow> npfloat" where
  "np_add (Fin a) (Fin b) = np_overflow (a + b)"
| "np_add (Fin a) PInf = PInf"
| "np_add (Fin a) NInf = NInf"
| "np_add (Fin a) NaN = NaN"
| "np_add PInf (Fin b) = PInf"
| "np_add PInf PInf = PInf"
| "np_add PInf NInf = NaN"
| "np_add PInf NaN = NaN"
| "np_add NInf (Fin b) = NInf"
| "np_add NInf PInf = NaN"
| "np_add NInf NInf = NInf"
| "np_add NInf NaN = NaN"
| "np_add NaN y = NaN"

text \<open>
  Division \<^verbatim>\<open>x / y\<close> of two float64 values. Dividing by zero does not raise: numpy
  yields \<^verbatim>\<open>inf\<close>, \<^verbatim>\<open>-inf\<close> or \<^verbatim>\<open>nan\<close> (for 0/0). A finite value divided
  by an infinity is 0, an infinity divided by an infinity is \<^verbatim>\<open>nan\<close>. The sign of
  a zero is not modelled.
\<close>

fun np_divide :: "npfloat \<Rightarrow> npfloat \<Rightarrow> npfloat" where
  "np_divide (Fin a) (Fin b) =
     (if b \<noteq> 0 then np_overflow (a / b)
      else if a > 0 then PInf
      else if a < 0 then NInf
      else NaN)"
| "np_divide (Fin a) PInf = Fin 0"
| "np_divide (Fin a) NInf = Fin 0"
| "np_divide (Fin a) NaN = NaN"
| "np_divide PInf (Fin b) = (if b < 0 then NInf else PInf)"
| "np_divide PInf PInf = NaN"
| "np_divide PInf NInf = NaN"
| "np_divide PInf NaN = NaN"
| "np_divide NInf (Fin b) = (if b < 0 then PInf else NInf)"
| "np_divide NInf PInf = NaN"
| "np_divide NInf NInf = NaN"
| "np_divide NInf NaN = NaN"
| "np_divide NaN y = NaN"

text \<open>Multiplication \<^verbatim>\<open>x * c\<close> of a float64 value by a finite constant.\<close>

fun np_times :: "npfloat \<Rightarrow> real \<Rightarrow> npfloat" where
  "np_times (Fin x) c = np_overflow (x * c)"
| "np_times PInf c = (if c > 0 then PInf else if c < 0 then NInf else NaN)"
| "np_times NInf c = (if c > 0 then NInf else if c < 0 then PInf else NaN)"
| "np_times NaN c = NaN"

text \<open>
  \<^verbatim>\<open>a.sum()\<close> of a float64 array of finite entries: the sum, or an infinity when it
  leaves the float64 range. The magnitudes summed by the program are moduli, so they are
  not negative and the order in which numpy adds them does not change whether the sum
  overflows.
\<close>

definition np_sum :: "real list \<Rightarrow> npfloat" where
  "np_sum a = np_overflow (sum_list a)"

text \<open>Comparison \<^verbatim>\<open>x > c\<close>: every comparison with nan is False.\<close>

fun np_greater :: "npfloat \<Rightarrow> real \<Rightarrow> bool" where
  "np_greater (Fin x) c = (x > c)"
| "np_greater PInf c = True"
| "np_greater NInf c = False"
| "np_greater NaN c = False"

subsection \<open>Band ratios and verdict (main, lines 368--393)\<close>

definition low_freq_mask :: "real list \<Rightarrow> bool list" where
  "low_freq_mask frequencies = map (\<lambda>f. f \<ge> 0 \<and> f \<le> 500) frequencies"

definition high_freq_mask :: "real list \<Rightarrow> bool list" where
  "high_freq_mask frequencies = map (\<lambda>f. f \<ge> 1000 \<and> f \<le> 3000) frequencies"

text \<open>
  \<^verbatim>\<open>magnitude[mask].sum() if mask.any() else 0\<close>: a float64 sum, or the integer 0.
\<close>

definition band_power :: "real list \<Rightarrow> bool list \<Rightarrow> error + npfloat" where
  "band_power magnitude bmask =
     (if True \<in> set bmask
      then (case mask_index magnitude bmask of
              Inl e \<Rightarrow> Inl e
            | Inr selected \<Rightarrow> Inr (np_sum selected))
      else Inr (Fin 0))"

text \<open>
  Lines 368--379. The result is the pair \<open>(low_ratio, high_ratio)\<close>. The total is a
  float64 sum and may overflow; the test \<^verbatim>\<open>total_power > 0\<close> holds for \<^verbatim>\<open>inf\<close> and
  fails for \<^verbatim>\<open>nan\<close>. In the else branch both ratios are the integer 0.
\<close>

definition band_ratios :: "real list \<Rightarrow> real list \<Rightarrow> error + (npfloat \<times> npfloat)" where
  "band_ratios frequencies magnitude =
     (case band_power magnitude (low_freq_mask frequencies) of
        Inl e \<Rightarrow> Inl e
      | Inr low_power \<Rightarrow>
          (case band_power magnitude (high_freq_mask frequencies) of
             Inl e \<Rightarrow> Inl e
           | Inr high_power \<Rightarrow>
               (let total_power = np_add low_power high_power in
                if np_greater total_power 0
                then Inr (np_times (np_divide low_power total_power) 100,
                          np_times (np_divide high_power total_power) 100)
                else Inr (Fin 0, Fin 0))))"

text \<open>
  Lines 388--393. The three messages of the source are \<^verbatim>\<open>st.success\<close> (low
  frequencies dominate, normal tendency), \<^verbatim>\<open>st.warning\<close> (many high frequencies,
  stenosis suggested) and \<^verbatim>\<open>st.info\<close> (mixed spectrum).
\<close>

datatype verdict = NORMAL_LEANING | STENOSIS_LEANING | MIXED

definition verdict_of :: "npfloat \<Rightarrow> npfloat \<Rightarrow> verdict" where
  "verdict_of low_ratio high_ratio =
     (if np_greater low_ratio 70 then NORMAL_LEANING
      else if np_greater high_ratio 40 then STENOSIS_LEANING
      else MIXED)"

text \<open>The whole classifier: the ratios and the verdict drawn from them.\<close>

definition classify :: "real list \<Rightarrow> real list \<Rightarrow> error + (npfloat \<times> npfloat \<times> verdict)" where
  "classify frequencies magnitude =
     (case band_ratios frequencies magnitude of
        Inl e \<Rightarrow> Inl e
      | Inr (low_ratio, high_ratio) \<Rightarrow>
          Inr (low_ratio, high_ratio, verdict_of low_ratio high_ratio))"

text \<open>
  The two band sums, as the spec words them, for a spectrum given as two arrays: exact
  sums of real numbers.
\<close>

definition low_power_of :: "real list \<Rightarrow> real list \<Rightarrow> real" where
  "low_power_of frequencies magnitude =
     sum_list (map snd (filter (\<lambda>(f, m). 0 \<le> f \<and> f \<le> 500) (zip frequencies magnitude)))"

definition high_power_of :: "real list \<Rightarrow> real list \<Rightarrow> real" where
  "high_power_of frequencies magnitude =
     sum_list (map snd (filter (\<lambda>(f, m). 1000 \<le> f \<and> f \<le> 3000) (zip frequencies magnitude)))"

subsection \<open>load_audio_data (lines 50--67)\<close>

text \<open>
  What \<^verbatim>\<open>scipy.io.wavfile.read\<close> hands back: the sample rate and an array whose dtype
  follows the sample encoding of the file. A mono file gives a one-dimensional array, a file
  with several channels a two-dimensional one, one row per time index and one column per
  channel (so every row has as many entries as there are channels, at least two).
  Integer samples are embedded in the reals.
\<close>

datatype dtype = uint8 | int16 | int32 | float32 | float64

datatype ndarray = Array1 dtype "real list" | Array2 dtype "real list list"

fun dtype_of :: "ndarray \<Rightarrow> dtype" where
  "dtype_of (Array1 dt xs) = dt"
| "dtype_of (Array2 dt rows) = dt"

text \<open>
  \<^verbatim>\<open>a.mean(axis=1)\<close> of a two-dimensional array: the arithmetic mean of every row.
  numpy computes the mean of an integer array in float64 and returns a float64 array; for
  a floating-point array the result keeps the dtype of the input.
\<close>

definition mean_dtype :: "dtype \<Rightarrow> dtype" where
  "mean_dtype dt = (if dt = float32 \<or> dt = float64 then dt else float64)"

definition mean_axis1 :: "dtype \<Rightarrow> real list list \<Rightarrow> ndarray" where
  "mean_axis1 dt rows =
     Array1 (mean_dtype dt) (map (\<lambda>row. sum_list row / real (length row)) rows)"

text \<open>\<^verbatim>\<open>a.astype(np.float32) / c\<close>\<close>

fun astype_float32_divide :: "ndarray \<Rightarrow> real \<Rightarrow> ndarray" where
  "astype_float32_divide (Array1 dt xs) c = Array1 float32 (map (\<lambda>x. x / c) xs)"
| "astype_float32_divide (Array2 dt rows) c = Array2 float32 (map (map (\<lambda>x. x / c)) rows)"

text \<open>
  The decoder \<^verbatim>\<open>wavfile.read\<close> is the library's and is taken as a parameter; an
  exception it raises is passed on.
\<close>

definition load_audio_data ::
  "('b \<Rightarrow> error + (int \<times> ndarray)) \<Rightarrow> 'b \<Rightarrow> error + (int \<times> ndarray)" where
  "load_audio_data wavfile_read audio_bytes =
     (case wavfile_read audio_bytes of
        Inl e \<Rightarrow> Inl e
      | Inr (sample_rate, audio_data) \<Rightarrow>
          (let mono = (case audio_data of
                         Array2 dt rows \<Rightarrow> mean_axis1 dt rows
                       | Array1 dt xs \<Rightarrow> audio_data);
               normalized =
                 (if dtype_of mono = int16 then astype_float32_divide mono 32768
                  else if dtype_of mono = int32 then astype_float32_divide mono 2147483648
                  else mono)
           in Inr (sample_rate, normalized)))"

subsection \<open>perform_fft_analysis (lines 70--84)\<close>

text \<open>
  \<^verbatim>\<open>np.fft.fftfreq(n, d)\<close>: the integers 0, 1, ..., (n-1)//2, -(n//2), ..., -1, each
  multiplied by 1/(n*d).
\<close>

definition fftfreq :: "nat \<Rightarrow> real \<Rightarrow> real list" where
  "fftfreq n d =
     map (\<lambda>k. real_of_int k * (1 / (real n * d)))
       ([0 .. int ((n - 1) div 2)] @ [- int (n div 2) .. -1])"

text \<open>\<^verbatim>\<open>np.fft.fft(a)\<close>: the discrete Fourier transform of the whole sequence.\<close>

definition fft :: "real list \<Rightarrow> complex list" where
  "fft a =
     map (\<lambda>k. \<Sum>m\<leftarrow>[0..<length a].
                 complex_of_real (a ! m) * cis (- (2 * pi * real m * real k / real (length a))))
       [0..<length a]"

text \<open>
  \<^verbatim>\<open>np.fft.fft\<close> raises ValueError on an empty array, and \<^verbatim>\<open>1/sample_rate\<close> raises
  ZeroDivisionError when the sample rate is 0.
\<close>

definition perform_fft_analysis :: "int \<Rightarrow> real list \<Rightarrow> error + (real list \<times> real list)" where
  "perform_fft_analysis sample_rate audio_data =
     (let n = length audio_data in
      if audio_data = [] then Inl ValueError
      else if sample_rate = 0 then Inl ZeroDivisionError
      else
        (let fft_result = fft audio_data;
             frequencies = fftfreq n (1 / real_of_int sample_rate);
             positive_mask = map (\<lambda>f. f \<ge> 0) frequencies
         in case mask_index frequencies positive_mask of
              Inl e \<Rightarrow> Inl e
            | Inr kept \<Rightarrow>
                (case mask_index fft_result positive_mask of
                   Inl e \<Rightarrow> Inl e
                 | Inr coefficients \<Rightarrow> Inr (kept, map cmod coefficients))))"

subsection \<open>plot_spectrogram (lines 139--184)\<close>

text \<open>
  \<^verbatim>\<open>np.arange(0, stop, step)\<close> for a positive step: 0, step, 2*step, ... below stop.
\<close>

definition arange0 :: "nat \<Rightarrow> nat \<Rightarrow> nat list" where
  "arange0 stop step = map (\<lambda>j. j * step) [0 ..< (stop + step - 1) div step]"

text \<open>
  matplotlib's \<^verbatim>\<open>specgram\<close> (mlab's spectral helper), as far as the shape of its result
  goes. A signal shorter than NFFT is padded with zeros up to NFFT; windows of NFFT
  samples start every NFFT - noverlap samples; there is one column of the spectrum and one
  time per window, the time being the centre of the window; a real signal gets the
  one-sided frequency axis 0 .. Fs/2 of NFFT//2 + 1 bins (for even NFFT). What is computed
  for one window (detrending, the Hanning window, the FFT and the scaling to a power
  spectral density) is the parameter \<open>periodogram\<close>. The spectrum is kept as the list of
  its columns, one per time.
\<close>

definition specgram ::
  "(real list \<Rightarrow> real list) \<Rightarrow> real list \<Rightarrow> int \<Rightarrow> nat \<Rightarrow> nat
     \<Rightarrow> error + (real list list \<times> real list \<times> real list)" where
  "specgram periodogram x Fs NFFT noverlap =
     (if noverlap \<ge> NFFT then Inl ValueError
      else if Fs = 0 then Inl ZeroDivisionError
      else
        (let padded = (if length x < NFFT then x @ replicate (NFFT - length x) 0 else x);
             numFreqs = (if odd NFFT then (NFFT + 1) div 2 else NFFT div 2 + 1);
             starts = arange0 (length padded - NFFT + 1) (NFFT - noverlap);
             spec = map (\<lambda>i. periodogram (take NFFT (drop i padded))) starts;
             freqs0 = take numFreqs (fftfreq NFFT (1 / real_of_int Fs));
             freqs = (if even NFFT then butlast freqs0 @ [- last freqs0] else freqs0);
             t = map (\<lambda>i. (real i + real NFFT / 2) / real_of_int Fs) starts
         in Inr (spec, freqs, t)))"

text \<open>
  The figure that \<^verbatim>\<open>plot_spectrogram\<close> returns, reduced to what the spectrogram puts
  into it: the image drawn from \<open>spectrum\<close> over the axes \<open>times\<close> and \<open>freqs\<close>
  with the colour limits \<open>vmin\<close> and \<open>vmax\<close>, and the view limits \<open>ylim\<close> of the
  frequency axis set by \<^verbatim>\<open>ax.set_ylim(0, 3000)\<close>. Colour bar, labels and colours are
  left out.
\<close>

record figure =
  spectrum :: "real list list"
  freqs :: "real list"
  times :: "real list"
  vmin :: real
  vmax :: real
  ylim :: "real \<times> real"

definition plot_spectrogram ::
  "(real list \<Rightarrow> real list) \<Rightarrow> int \<Rightarrow> real list \<Rightarrow> error + figure" where
  "plot_spectrogram periodogram sample_rate audio_data =
     (case specgram periodogram audio_data sample_rate 1024 512 of
        Inl e \<Rightarrow> Inl e
      | Inr (spec, fr, t) \<Rightarrow>
          Inr \<lparr>spectrum = spec, freqs = fr, times = t, vmin = - 80, vmax = 0,
               ylim = (0, 3000)\<rparr>)"

subsection \<open>Properties of the classifier\<close>

lemma mask_index_map:
  "length a = length fs \<Longrightarrow>
   mask_index a (map p fs) = Inr (map snd (filter (\<lambda>(f, m). p f) (zip fs a)))"
proof (induction fs arbitrary: a)
  case Nil
  then show ?case by (simp add: mask_index_def)
next
  case (Cons f fs)
  then obtain x xs where a: "a = x # xs" and len: "length xs = length fs"
    by (cases a) auto
  from Cons.IH [OF len] len show ?case
    by (auto simp: a mask_index_def)
qed

lemma float64_max_ge_100: "100 \<le> float64_max"
  by (simp add: float64_max_def)



lemma np_overflow_0: "np_overflow 0 = Fin 0"
  using float64_max_ge_100 by (simp add: np_overflow_def)

lemma band_power_map:
  assumes "length magnitude = length fs"
  shows "band_power magnitude (map p fs) =
           Inr (np_overflow (sum_list (map snd (filter (\<lambda>(f, m). p f) (zip fs magnitude)))))"
proof (cases "True \<in> set (map p fs)")
  case True
  then show ?thesis
    by (simp add: band_power_def np_sum_def mask_index_map [OF assms])
next
  case False
  then have "\<forall>f \<in> set fs. \<not> p f" by auto
  then have "filter (\<lambda>(f, m). p f) (zip fs magnitude) = []"
    by (auto simp: filter_empty_conv dest: set_zip_leftD)
  with False show ?thesis
    by (simp add: band_power_def np_overflow_0)
qed

lemma band_ratios_eq:
  assumes "length frequencies = length magnitude"
  shows "band_ratios frequencies magnitude =
           (let low_power = np_overflow (low_power_of frequencies magnitude);
                high_power = np_overflow (high_power_of frequencies magnitude);
                total_power = np_add low_power high_power in
            if np_greater total_power 0
            then Inr (np_times (np_divide low_power total_power) 100,
                      np_times (np_divide high_power total_power) 100)
            else Inr (Fin 0, Fin 0))"
  using assms
  by (simp add: band_ratios_def low_freq_mask_def high_freq_mask_def band_power_map
      low_power_of_def high_power_of_def Let_def)

lemma zero_total_not_greater:
  assumes "a + b = 0"
  shows "\<not> np_greater (np_add (np_overflow a) (np_overflow b)) 0"
proof -
  from assms have b: "b = - a" by simp
  show ?thesis
    using float64_max_ge_100 unfolding b
    by (simp add: np_overflow_def)
qed










text \<open>
  C4. The verdict is decided by three rules in order, the first match winning:
  low_ratio > 70 gives NORMAL_LEANING, otherwise high_ratio > 40 gives STENOSIS_LEANING,
  otherwise MIXED. So each verdict is characterised by a region of the plane, and the
  three sample points of the spec fall as stated.
\<close>

theorem verdict_three_rules:
  "(verdict_of (Fin l) (Fin h) = NORMAL_LEANING) = (l > 70)
   \<and> (verdict_of (Fin l) (Fin h) = STENOSIS_LEANING) = (l \<le> 70 \<and> h > 40)
   \<and> (verdict_of (Fin l) (Fin h) = MIXED) = (l \<le> 70 \<and> h \<le> 40)
   \<and> verdict_of (Fin 80) (Fin 10) = NORMAL_LEANING
   \<and> verdict_of (Fin 30) (Fin 50) = STENOSIS_LEANING
   \<and> verdict_of (Fin 50) (Fin 20) = MIXED"
  by (auto simp: verdict_of_def)

text \<open>
  C10. For a spectrum with zero total energy in the two bands (silence, for example), the
  classifier returns both ratios 0 and the verdict MIXED.
\<close>

theorem classify_zero_total_mixed:
  assumes "length frequencies = length magnitude"
    and "low_power_of frequencies magnitude + high_power_of frequencies magnitude = 0"
  shows "classify frequencies magnitude = Inr (Fin 0, Fin 0, MIXED)"
proof -
  from assms(2)
  have "\<not> np_greater (np_add (np_overflow (low_power_of frequencies magnitude))
                              (np_overflow (high_power_of frequencies magnitude))) 0"
    by (rule zero_total_not_greater)
  then have "band_ratios frequencies magnitude = Inr (Fin 0, Fin 0)"
    unfolding band_ratios_eq [OF assms(1)] Let_def by simp
  then show ?thesis by (simp add: classify_def verdict_of_def)
qed

theorem classify_zero_total_mixed_witness:
  "length [0, 250, 1500 :: real] = length [0, 0, 0 :: real]
   \<and> low_power_of [0, 250, 1500] [0, 0, 0] + high_power_of [0, 250, 1500] [0, 0, 0] = 0
   \<and> classify [0, 250, 1500] [0, 0, 0] = Inr (Fin 0, Fin 0, MIXED)"
proof -
  have len: "length [0, 250, 1500 :: real] = length [0, 0, 0 :: real]" by simp
  have z: "low_power_of [0, 250, 1500] [0, 0, 0] + high_power_of [0, 250, 1500] [0, 0, 0] = 0"
    by (simp add: low_power_of_def high_power_of_def)
  from classify_zero_total_mixed [OF len z] len z show ?thesis by simp
qed

subsection \<open>Properties of load_audio_data\<close>

text \<open>
  The mono path: integer samples are divided by the full scale of their encoding, floating
  point samples pass through unchanged.
\<close>

lemma load_mono:
  assumes "wavfile_read audio_bytes = Inr (sample_rate, Array1 dt xs)"
  shows "load_audio_data wavfile_read audio_bytes =
           Inr (sample_rate,
                if dt = int16 then Array1 float32 (map (\<lambda>x. x / 32768) xs)
                else if dt = int32 then Array1 float32 (map (\<lambda>x. x / 2147483648) xs)
                else Array1 dt xs)"
  using assms by (simp add: load_audio_data_def)

text \<open>
  The path of several channels: the rows are averaged, and the result of the mean is a
  floating-point array, so that neither test on the dtype can succeed any more: no array
  of several channels is ever divided by 32768 or 2147483648.
\<close>

lemma load_multichannel:
  assumes "wavfile_read audio_bytes = Inr (sample_rate, Array2 dt rows)"
  shows "load_audio_data wavfile_read audio_bytes =
           Inr (sample_rate,
                Array1 (mean_dtype dt) (map (\<lambda>row. sum_list row / real (length row)) rows))"
  using assms by (simp add: load_audio_data_def mean_axis1_def mean_dtype_def)

text \<open>
  For floating-point samples, two identical channels do load as the single channel does.
\<close>

lemma load_stereo_float_identical:
  assumes "dt = float32 \<or> dt = float64"
    and "read_stereo audio_bytes = Inr (sample_rate, Array2 dt (map (\<lambda>x. [x, x]) xs))"
    and "read_mono audio_bytes = Inr (sample_rate, Array1 dt xs)"
  shows "load_audio_data read_stereo audio_bytes = load_audio_data read_mono audio_bytes"
proof -
  have "load_audio_data read_mono audio_bytes = Inr (sample_rate, Array1 dt xs)"
    using assms(1)
      load_mono [where wavfile_read = read_mono and audio_bytes = audio_bytes, OF assms(3)]
    by auto
  moreover have "load_audio_data read_stereo audio_bytes = Inr (sample_rate, Array1 dt xs)"
    using assms(1)
      load_multichannel [where wavfile_read = read_stereo and audio_bytes = audio_bytes,
        OF assms(2)]
    by (auto simp: mean_dtype_def o_def map_idI)
  ultimately show ?thesis by simp
qed

text \<open>
  C1. Stereo input with identical left and right channels should load to the same waveform
  as the mono input of that channel. For 16-bit integer samples the code does not do so:
  the stereo frame (16384, 16384) loads as the sample 16384, the mono sample 16384 as 1/2.
\<close>

theorem load_stereo_int16_differs_from_mono:
  "load_audio_data (\<lambda>b. Inr (8000, Array2 int16 [[16384, 16384]])) audio_bytes
     = Inr (8000, Array1 float64 [16384])
   \<and> load_audio_data (\<lambda>b. Inr (8000, Array1 int16 [16384])) audio_bytes
     = Inr (8000, Array1 float32 [1 / 2])"
  by (simp add: load_audio_data_def mean_axis1_def mean_dtype_def)

text \<open>
  C7. Every signed 16-bit sample should be divided by 32768 and every signed 32-bit sample
  by 2147483648, so that the samples lie in [-1, 1]. For input of two channels the code
  returns the plain means instead: full-scale 16-bit frames load as 32767 and -32768, and a
  full-scale 32-bit frame as 2147483647.
\<close>

theorem load_stereo_integer_not_normalized:
  "load_audio_data (\<lambda>b. Inr (44100, Array2 int16 [[32767, 32767], [- 32768, - 32768]])) audio_bytes
     = Inr (44100, Array1 float64 [32767, - 32768])
   \<and> load_audio_data (\<lambda>b. Inr (44100, Array2 int32 [[2147483647, 2147483647]])) audio_bytes
     = Inr (44100, Array1 float64 [2147483647])"
  by (simp add: load_audio_data_def mean_axis1_def mean_dtype_def)

subsection \<open>Properties of perform_fft_analysis\<close>

lemma upto_map_int: "[0 .. int n - 1] = map int [0..<n]"
proof (induction n)
  case 0 show ?case by simp
next
  case (Suc n)
  have "[0 .. int (Suc n) - 1] = [0 .. int n - 1] @ [int n]"
    using upto_rec2 [of 0 "int n"] by simp
  with Suc show ?case by simp
qed

lemma map_all_const: "(\<And>x. x \<in> set xs \<Longrightarrow> f x = c) \<Longrightarrow> map f xs = replicate (length xs) c"
  by (induction xs) auto

lemma positive_mask_shape:
  assumes "n > 0" "d > 0"
  shows "map (\<lambda>f. f \<ge> 0) (fftfreq n d) = replicate ((n - 1) div 2 + 1) True @ replicate (n div 2) False"
proof -
  let ?v = "1 / (real n * d)"
  have v: "?v > 0" using assms by simp
  have a: "map (\<lambda>k. real_of_int k * ?v \<ge> 0) [0 .. int ((n - 1) div 2)]
           = replicate ((n - 1) div 2 + 1) True"
  proof -
    have "map (\<lambda>k. real_of_int k * ?v \<ge> 0) [0 .. int ((n - 1) div 2)]
          = replicate (length [0 .. int ((n - 1) div 2)]) True"
    proof (intro map_all_const)
      fix k assume "k \<in> set [0 .. int ((n - 1) div 2)]"
      then have "0 \<le> real_of_int k" by simp
      with v show "(real_of_int k * ?v \<ge> 0) = True" by (simp del: of_int_0_le_iff)
    qed
    moreover have "length [0 .. int ((n - 1) div 2)] = (n - 1) div 2 + 1"
      by (simp add: nat_add_distrib)
    ultimately show ?thesis by (simp only:)
  qed
  have b: "map (\<lambda>k. real_of_int k * ?v \<ge> 0) [- int (n div 2) .. -1]
           = replicate (n div 2) False"
  proof -
    have "map (\<lambda>k. real_of_int k * ?v \<ge> 0) [- int (n div 2) .. -1]
          = replicate (length [- int (n div 2) .. -1]) False"
    proof (intro map_all_const)
      fix k assume "k \<in> set [- int (n div 2) .. -1]"
      then have "real_of_int k < 0" by simp
      with v have "real_of_int k * ?v < 0" by (intro mult_neg_pos)
      then show "(real_of_int k * ?v \<ge> 0) = False" by simp
    qed
    then show ?thesis by simp
  qed
  show ?thesis
    unfolding fftfreq_def map_map o_def map_append a b ..
qed

lemma mask_index_prefix:
  assumes "length ys = a + b"
  shows "mask_index ys (replicate a True @ replicate b False) = Inr (take a ys)"
proof -
  have z: "zip ys (replicate a True @ replicate b False)
        = zip (take a ys) (replicate a True) @ zip (drop a ys) (replicate b False)"
    using assms by (simp add: zip_append2)
  have t: "map fst (filter snd (zip (take a ys) (replicate a True))) = take a ys"
    using assms by (simp add: zip_replicate2 filter_map o_def min_def)
  have f: "filter snd (zip (drop a ys) (replicate b False)) = []"
    by (auto simp: filter_empty_conv dest: set_zip_rightD)
  show ?thesis using assms by (simp add: mask_index_def z t f)
qed

lemma length_fftfreq: "n > 0 \<Longrightarrow> length (fftfreq n d) = n"
  by (simp add: fftfreq_def)

lemma half_split: "n > 0 \<Longrightarrow> (n - 1) div 2 + 1 + n div 2 = (n::nat)"
  by presburger

lemma half_ceil: "n > 0 \<Longrightarrow> (n - 1) div 2 + 1 = (n + 1) div (2::nat)"
  by presburger

lemma take_fftfreq:
  assumes "n > 0"
  shows "take ((n + 1) div 2) (fftfreq n d) = map (\<lambda>k. real k * (1 / (real n * d))) [0..<(n + 1) div 2]"
proof -
  have "(n + 1) div 2 = Suc ((n - 1) div 2)" using half_ceil [OF assms] by simp
  then have "int ((n + 1) div 2) - 1 = int ((n - 1) div 2)" by simp
  then have e: "[0 .. int ((n - 1) div 2)] = map int [0..<(n + 1) div 2]"
    using upto_map_int [of "(n + 1) div 2"] by simp
  have l: "length (map int [0..<(n + 1) div 2]) = (n + 1) div 2" by simp
  show ?thesis
    unfolding fftfreq_def e map_append
    by (simp add: o_def)
qed


lemma mask_index_self: "mask_index fs (map p fs) = Inr (filter p fs)"
proof -
  have "map snd (filter (\<lambda>(f, m). p f) (zip fs fs)) = filter p fs"
    by (induction fs) auto
  then show ?thesis by (simp add: mask_index_map)
qed

lemma mask_fftfreq_prefix:
  assumes "n > 0" "d > 0" "length ys = n"
  shows "mask_index ys (map (\<lambda>f. f \<ge> 0) (fftfreq n d)) = Inr (take ((n + 1) div 2) ys)"
proof -
  have shape: "map (\<lambda>f. f \<ge> 0) (fftfreq n d)
               = replicate ((n + 1) div 2) True @ replicate (n div 2) False"
    using positive_mask_shape [OF assms(1,2)] by (simp only: half_ceil [OF assms(1)])
  have split: "length ys = (n + 1) div 2 + n div 2"
    using half_split [OF assms(1)] assms(3) by (simp only: half_ceil [OF assms(1)])
  show ?thesis unfolding shape by (rule mask_index_prefix [OF split])
qed

lemma kept_frequencies:
  assumes "n > 0" "d > 0"
  shows "filter (\<lambda>f. f \<ge> 0) (fftfreq n d) = take ((n + 1) div 2) (fftfreq n d)"
proof -
  have "mask_index (fftfreq n d) (map (\<lambda>f. f \<ge> 0) (fftfreq n d))
        = Inr (take ((n + 1) div 2) (fftfreq n d))"
    by (rule mask_fftfreq_prefix [OF assms length_fftfreq [OF assms(1)]])
  then show ?thesis by (simp only: mask_index_self sum.inject)
qed

lemma perform_fft_analysis_eq:
  assumes "audio_data \<noteq> []" "sample_rate > 0"
  shows "perform_fft_analysis sample_rate audio_data =
           Inr (take ((length audio_data + 1) div 2)
                  (fftfreq (length audio_data) (1 / real_of_int sample_rate)),
                map cmod (take ((length audio_data + 1) div 2) (fft audio_data)))"
proof -
  let ?n = "length audio_data"
  let ?d = "1 / real_of_int sample_rate"
  from assms have n: "?n > 0" and d: "?d > 0" by simp_all
  have fr: "mask_index (fftfreq ?n ?d) (map (\<lambda>f. f \<ge> 0) (fftfreq ?n ?d))
            = Inr (take ((?n + 1) div 2) (fftfreq ?n ?d))"
    by (rule mask_fftfreq_prefix [OF n d length_fftfreq [OF n]])
  have co: "mask_index (fft audio_data) (map (\<lambda>f. f \<ge> 0) (fftfreq ?n ?d))
            = Inr (take ((?n + 1) div 2) (fft audio_data))"
    by (rule mask_fftfreq_prefix [OF n d]) (simp add: fft_def)
  show ?thesis
    using assms by (simp add: perform_fft_analysis_def Let_def fr co)
qed

lemma retained_frequencies:
  assumes "n > 0" "sample_rate > 0"
  shows "take ((n + 1) div 2) (fftfreq n (1 / real_of_int sample_rate))
         = map (\<lambda>k. real k * real_of_int sample_rate / real n) [0..<(n + 1) div 2]"
proof -
  have c: "1 / (real n * (1 / real_of_int sample_rate)) = real_of_int sample_rate / real n"
    using assms by simp
  show ?thesis unfolding take_fftfreq [OF assms(1)] c by simp
qed

lemma sorted_scaled_upt:
  fixes b c :: real
  assumes "b > 0" "c \<ge> 0"
  shows "sorted (map (\<lambda>k. real k * c / b) [0..<m])"
  using assms by (auto simp: sorted_iff_nth_mono intro!: divide_right_mono mult_right_mono)

text \<open>
  C6. For every non-empty waveform (with a positive sample rate) the analysis succeeds, the
  frequencies and the magnitudes have the same length, the frequencies are sorted
  non-decreasing, and entry i of both arrays belongs to the same bin of the transform:
  frequencies[i] is bin i of fftfreq and magnitudes[i] the modulus of coefficient i.
\<close>

theorem fft_spectrum_sorted_aligned:
  assumes "audio_data \<noteq> []" "sample_rate > 0"
  shows "\<exists>frequencies magnitude.
           perform_fft_analysis sample_rate audio_data = Inr (frequencies, magnitude)
           \<and> length frequencies = length magnitude
           \<and> sorted frequencies
           \<and> (\<forall>i < length frequencies.
                 frequencies ! i = fftfreq (length audio_data) (1 / real_of_int sample_rate) ! i
                 \<and> magnitude ! i = cmod (fft audio_data ! i))"
proof -
  let ?n = "length audio_data"
  let ?m = "(?n + 1) div 2"
  let ?d = "1 / real_of_int sample_rate"
  let ?fs = "take ?m (fftfreq ?n ?d)"
  let ?ms = "map cmod (take ?m (fft audio_data))"
  from assms have n: "?n > 0" by simp
  have lf: "length (fft audio_data) = ?n" by (simp add: fft_def)
  have len: "length ?fs = length ?ms" by (simp add: lf length_fftfreq [OF n])
  have srt: "sorted ?fs"
    unfolding retained_frequencies [OF n assms(2)]
    using assms n by (intro sorted_scaled_upt) simp_all
  have nth: "\<forall>i < length ?fs. ?fs ! i = fftfreq ?n ?d ! i \<and> ?ms ! i = cmod (fft audio_data ! i)"
    by (simp add: lf length_fftfreq [OF n])
  show ?thesis
    unfolding perform_fft_analysis_eq [OF assms]
    using len srt nth by blast
qed

theorem fft_spectrum_sorted_aligned_witness:
  "[1, 0, 0, 0 :: real] \<noteq> [] \<and> (8000::int) > 0
   \<and> (\<exists>frequencies magnitude.
         perform_fft_analysis 8000 [1, 0, 0, 0] = Inr (frequencies, magnitude)
         \<and> length frequencies = length magnitude \<and> sorted frequencies)"
proof -
  have a: "[1, 0, 0, 0 :: real] \<noteq> []" by simp
  have b: "(8000::int) > 0" by simp
  from fft_spectrum_sorted_aligned [OF a b] a b show ?thesis by blast
qed

text \<open>
  C9. For every non-empty waveform of length N (with a positive sample rate) the retained
  frequencies are exactly the non-negative entries of fftfreq, that is k * sample_rate / N
  for k = 0, ..., ceil(N/2) - 1: the first is 0 Hz, none is negative, and for even N the
  Nyquist frequency sample_rate/2 is not among them.
\<close>

theorem fft_keeps_nonnegative_bins:
  assumes "audio_data \<noteq> []" "sample_rate > 0"
  shows "\<exists>frequencies magnitude.
           perform_fft_analysis sample_rate audio_data = Inr (frequencies, magnitude)
           \<and> frequencies = filter (\<lambda>f. f \<ge> 0) (fftfreq (length audio_data) (1 / real_of_int sample_rate))
           \<and> frequencies = map (\<lambda>k. real k * real_of_int sample_rate / real (length audio_data))
                              [0..<(length audio_data + 1) div 2]
           \<and> frequencies ! 0 = 0
           \<and> (\<forall>f \<in> set frequencies. 0 \<le> f)
           \<and> (even (length audio_data) \<longrightarrow> real_of_int sample_rate / 2 \<notin> set frequencies)"
proof -
  let ?n = "length audio_data"
  let ?m = "(?n + 1) div 2"
  let ?d = "1 / real_of_int sample_rate"
  let ?fs = "map (\<lambda>k. real k * real_of_int sample_rate / real ?n) [0..<?m]"
  from assms have n: "?n > 0" and sr: "real_of_int sample_rate > 0" and d: "?d > 0" by simp_all
  have m: "?m > 0" using n by simp
  have tk: "take ?m (fftfreq ?n ?d) = ?fs" by (rule retained_frequencies [OF n assms(2)])
  have filt: "?fs = filter (\<lambda>f. f \<ge> 0) (fftfreq ?n ?d)"
    using kept_frequencies [OF n d] tk by simp
  have dc: "?fs ! 0 = 0" using m by simp
  have nonneg: "\<forall>f \<in> set ?fs. 0 \<le> f" using sr by auto
  have nyq: "even ?n \<longrightarrow> real_of_int sample_rate / 2 \<notin> set ?fs"
  proof (intro impI notI)
    assume ev: "even ?n" and "real_of_int sample_rate / 2 \<in> set ?fs"
    then obtain k where k: "k < ?m"
      and eq: "real_of_int sample_rate / 2 = real k * real_of_int sample_rate / real ?n"
      by auto
    from eq sr n have "real ?n = 2 * real k" by (simp add: field_simps)
    then have "?n = 2 * k" by linarith
    with k show False by simp
  qed
  show ?thesis
    unfolding perform_fft_analysis_eq [OF assms] tk
    using filt dc nonneg nyq by blast
qed

theorem fft_keeps_nonnegative_bins_witness:
  "[1, 0, 0, 0 :: real] \<noteq> [] \<and> (8000::int) > 0 \<and> even (length [1, 0, 0, 0 :: real])
   \<and> (\<exists>magnitude. perform_fft_analysis 8000 [1, 0, 0, 0] = Inr ([0, 2000], magnitude))
   \<and> (4000::real) \<notin> set [0, 2000]"
proof -
  have a: "[1, 0, 0, 0 :: real] \<noteq> []" by simp
  have b: "(8000::int) > 0" by simp
  have u: "[0..<(length [1, 0, 0, 0 :: real] + 1) div 2] = [0, 1]"
    by (simp add: upt_rec)
  from fft_keeps_nonnegative_bins [OF a b] show ?thesis
    unfolding u by auto
qed

subsection \<open>Properties of plot_spectrogram\<close>

lemma onesided_freqs:
  assumes "h > 0"
  shows "butlast (take (h + 1) (fftfreq (2 * h) d)) @ [- last (take (h + 1) (fftfreq (2 * h) d))]
         = map (\<lambda>k. real k * (1 / (real (2 * h) * d))) [0..<h + 1]"
proof -
  let ?g = "\<lambda>k. real_of_int k * (1 / (real (2 * h) * d))"
  have "(2 * h - 1) div 2 = h - 1" using assms by presburger
  then have "int ((2 * h - 1) div 2) = int h - 1" using assms by simp
  then have a: "[0 .. int ((2 * h - 1) div 2)] = map int [0..<h]"
    using upto_map_int [of h] by simp
  have b: "[- int (2 * h div 2) .. -1] = (- int h) # [- int h + 1 .. -1]"
    using assms by (simp add: upto_rec1)
  have tk: "take (h + 1) (fftfreq (2 * h) d) = map ?g (map int [0..<h]) @ [?g (- int h)]"
    unfolding fftfreq_def a b by simp
  show ?thesis unfolding tk by (simp add: o_def)
qed

lemma specgram_1024:
  assumes "Fs \<noteq> 0"
  shows "specgram periodogram x Fs 1024 512 =
     Inr (map (\<lambda>i. periodogram (take 1024 (drop i (if length x < 1024 then x @ replicate (1024 - length x) 0 else x))))
            (arange0 (length (if length x < 1024 then x @ replicate (1024 - length x) 0 else x) - 1024 + 1) 512),
          map (\<lambda>k. real k * real_of_int Fs / 1024) [0..<513],
          map (\<lambda>i. (real i + 512) / real_of_int Fs)
            (arange0 (length (if length x < 1024 then x @ replicate (1024 - length x) 0 else x) - 1024 + 1) 512))"
proof -
  have c: "1 / (real (2 * 512) * (1 / real_of_int Fs)) = real_of_int Fs / 1024"
    using assms by simp
  have f: "butlast (take 513 (fftfreq 1024 (1 / real_of_int Fs)))
           @ [- last (take 513 (fftfreq 1024 (1 / real_of_int Fs)))]
           = map (\<lambda>k. real k * real_of_int Fs / 1024) [0..<513]"
    using onesided_freqs [of 512 "1 / real_of_int Fs"] unfolding c by simp
  show ?thesis
    using assms unfolding specgram_def Let_def
    by (simp add: f del: upt_Suc)
qed


lemma plot_spectrogram_eq:
  assumes "sample_rate \<noteq> 0"
  shows "plot_spectrogram periodogram sample_rate x =
     Inr \<lparr>spectrum = map (\<lambda>i. periodogram (take 1024 (drop i (if length x < 1024 then x @ replicate (1024 - length x) 0 else x))))
            (arange0 (length (if length x < 1024 then x @ replicate (1024 - length x) 0 else x) - 1024 + 1) 512),
          freqs = map (\<lambda>k. real k * real_of_int sample_rate / 1024) [0..<513],
          times = map (\<lambda>i. (real i + 512) / real_of_int sample_rate)
            (arange0 (length (if length x < 1024 then x @ replicate (1024 - length x) 0 else x) - 1024 + 1) 512),
          vmin = - 80, vmax = 0, ylim = (0, 3000)\<rparr>"
  by (simp only: plot_spectrogram_def specgram_1024 [OF assms] sum.case prod.case)

lemma one_window: "arange0 1 512 = [0]"
  by (simp add: arange0_def)

lemma padded_append:
  "(if length x < 1024 then x @ replicate (1024 - length x) (0::real) else x)
   = x @ replicate (1024 - length x) 0"
  by simp

lemma window_starts_nonempty:
  assumes "1024 \<le> L"
  shows "arange0 (L - 1024 + 1) 512 \<noteq> []"
proof -
  from assms have "(512::nat) \<le> L - 1024 + 1 + 512 - 1" by linarith
  then have "0 < (L - 1024 + 1 + 512 - 1) div 512"
    by (simp only: div_greater_zero_iff) simp
  then show ?thesis by (simp add: arange0_def)
qed

lemma window_starts_fit:
  assumes "1024 \<le> L" and "i \<in> set (arange0 (L - 1024 + 1) 512)"
  shows "i + 1024 \<le> L"
proof -
  from assms(2) obtain j where i: "i = j * 512" and j: "j < (L - 1024 + 1 + 512 - 1) div 512"
    by (auto simp: arange0_def)
  let ?M = "L - 1024 + 1 + 512 - 1"
  from j have "Suc j \<le> ?M div 512" by simp
  then have "Suc j * 512 \<le> ?M div 512 * 512" by (rule mult_le_mono1)
  also have "\<dots> \<le> ?M" by (rule div_times_less_eq_dividend)
  finally have "j * 512 + 512 \<le> ?M" by simp
  with assms(1) have "j * 512 + 1024 \<le> L" by linarith
  then show ?thesis by (simp only: i)
qed

text \<open>
  C5 (as the code has it). \<^verbatim>\<open>plot_spectrogram\<close> has no check of the length and no
  error of its own: a waveform of 1023 samples does not fail, it is padded with zeros to
  one window of 1024 samples. For 1023 samples as for 1024 samples the call succeeds and
  gives exactly one time bin (window 1024, overlap 512), at 512 / sample_rate seconds,
  computed from the zero-padded waveform.
\<close>

theorem spectrogram_one_time_bin:
  assumes "sample_rate \<noteq> 0" and "length x = 1023 \<or> length x = 1024"
  shows "\<exists>fig. plot_spectrogram periodogram sample_rate x = Inr fig
           \<and> length (times fig) = 1 \<and> length (spectrum fig) = 1
           \<and> times fig = [512 / real_of_int sample_rate]
           \<and> (\<forall>col \<in> set (spectrum fig).
                 col = periodogram (x @ replicate (1024 - length x) 0))"
proof -
  let ?p = "if length x < 1024 then x @ replicate (1024 - length x) 0 else x"
  from assms(2) have l: "length ?p - 1024 + 1 = 1" by auto
  from assms(2) have p: "take 1024 ?p = x @ replicate (1024 - length x) 0" by auto
  show ?thesis
    unfolding plot_spectrogram_eq [OF assms(1)] l one_window
    using p by simp
qed

theorem spectrogram_one_time_bin_witness:
  "(8000::int) \<noteq> 0 \<and> length (replicate 1024 (0::real)) = 1024
   \<and> (\<exists>fig. plot_spectrogram id 8000 (replicate 1024 0) = Inr fig
          \<and> length (times fig) = 1 \<and> length (spectrum fig) = 1)"
proof -
  have a: "(8000::int) \<noteq> 0" by simp
  have b: "length (replicate 1024 (0::real)) = 1023 \<or> length (replicate 1024 (0::real)) = 1024"
    by simp
  from spectrogram_one_time_bin [OF a b, of id] show ?thesis by auto
qed

text \<open>
  C5 as stated fails: on a waveform of 1023 samples the call returns a figure, with one
  time bin, and no error.
\<close>

theorem spectrogram_short_input_no_error:
  "\<not> isl (plot_spectrogram id 8000 (replicate 1023 0))
   \<and> length (times (projr (plot_spectrogram id 8000 (replicate 1023 0)))) = 1"
proof -
  have a: "(8000::int) \<noteq> 0" by simp
  have l: "length (if length (replicate 1023 (0::real)) < 1024
                   then replicate 1023 (0::real) @ replicate (1024 - length (replicate 1023 (0::real))) 0
                   else replicate 1023 0) - 1024 + 1 = 1" by simp
  show ?thesis
    unfolding plot_spectrogram_eq [OF a] l one_window by simp
qed

text \<open>
  C8 (as the code has it). The restriction to [0, 3000] Hz is the view limit of the
  frequency axis of the figure, set by \<^verbatim>\<open>ax.set_ylim(0, 3000)\<close>. The frequency bins
  and the columns of the spectrum are not filtered: there are always 513 bins,
  k * sample_rate / 1024 for k = 0, ..., 512, the last one at sample_rate / 2; the spectrum
  has one column for each window of 1024 samples of the zero-padded waveform, at least
  one, as many as there are time bins, and each column is the whole transform of its
  window, so that it has one entry for each of the 513 bins when the transform of a
  window of 1024 samples has 513 entries.
\<close>

theorem spectrogram_freq_axis:
  assumes "sample_rate \<noteq> 0"
  shows "\<exists>fig. plot_spectrogram periodogram sample_rate x = Inr fig
           \<and> ylim fig = (0, 3000)
           \<and> freqs fig = map (\<lambda>k. real k * real_of_int sample_rate / 1024) [0..<513]
           \<and> length (freqs fig) = 513
           \<and> last (freqs fig) = real_of_int sample_rate / 2
           \<and> spectrum fig =
               map (\<lambda>i. periodogram (take 1024 (drop i (x @ replicate (1024 - length x) 0))))
                 (arange0 (length (x @ replicate (1024 - length x) 0) - 1024 + 1) 512)
           \<and> spectrum fig \<noteq> []
           \<and> length (spectrum fig) = length (times fig)
           \<and> ((\<forall>w. length w = 1024 \<longrightarrow> length (periodogram w) = 513)
                \<longrightarrow> (\<forall>col \<in> set (spectrum fig). length col = length (freqs fig)))"
proof -
  let ?p = "x @ replicate (1024 - length x) 0"
  let ?starts = "arange0 (length ?p - 1024 + 1) 512"
  let ?spec = "map (\<lambda>i. periodogram (take 1024 (drop i ?p))) ?starts"
  let ?freqs = "map (\<lambda>k. real k * real_of_int sample_rate / 1024) [0..<513]"
  let ?times = "map (\<lambda>i. (real i + 512) / real_of_int sample_rate) ?starts"
  have eq: "plot_spectrogram periodogram sample_rate x =
              Inr \<lparr>spectrum = ?spec, freqs = ?freqs, times = ?times,
                   vmin = - 80, vmax = 0, ylim = (0, 3000)\<rparr>"
    unfolding plot_spectrogram_eq [OF assms] padded_append ..
  have len: "1024 \<le> length ?p" by simp
  have lf: "length ?freqs = 513" by simp
  have la: "last ?freqs = real_of_int sample_rate / 2"
    by (simp add: last_map del: upt_Suc)
  have ne: "?spec \<noteq> []"
    using window_starts_nonempty [OF len] by (simp only: map_is_Nil_conv not_False_eq_True)
  have ls: "length ?spec = length ?times" by (simp only: length_map)
  have cols: "\<forall>col \<in> set ?spec. length col = length ?freqs"
    if w: "\<forall>w. length w = 1024 \<longrightarrow> length (periodogram w) = 513"
  proof
    fix col assume "col \<in> set ?spec"
    then obtain i where i: "i \<in> set ?starts"
      and col: "col = periodogram (take 1024 (drop i ?p))"
      by (auto simp only: set_map)
    from window_starts_fit [OF len i] have "length (take 1024 (drop i ?p)) = 1024"
      by simp
    with w have "length col = 513" unfolding col by blast
    then show "length col = length ?freqs" by (simp only: lf)
  qed
  let ?fig = "\<lparr>spectrum = ?spec, freqs = ?freqs, times = ?times,
               vmin = - 80, vmax = 0, ylim = (0, 3000)\<rparr>"
  have sel: "spectrum ?fig = ?spec" "freqs ?fig = ?freqs" "times ?fig = ?times"
    "ylim ?fig = (0, 3000)"
    by (simp_all only: figure.select_convs)
  show ?thesis
  proof (intro exI [where x = ?fig] conjI impI)
    show "plot_spectrogram periodogram sample_rate x = Inr ?fig" by (rule eq)
    show "ylim ?fig = (0, 3000)" by (rule sel(4))
    show "freqs ?fig = ?freqs" by (rule sel(2))
    show "length (freqs ?fig) = 513" unfolding sel by (rule lf)
    show "last (freqs ?fig) = real_of_int sample_rate / 2" unfolding sel by (rule la)
    show "spectrum ?fig = ?spec" by (rule sel(1))
    show "spectrum ?fig \<noteq> []" unfolding sel by (rule ne)
    show "length (spectrum ?fig) = length (times ?fig)" unfolding sel by (rule ls)
    show "\<forall>col \<in> set (spectrum ?fig). length col = length (freqs ?fig)"
      if "\<forall>w. length w = 1024 \<longrightarrow> length (periodogram w) = 513"
      unfolding sel using that by (rule cols)
  qed
qed

theorem spectrogram_freq_axis_witness:
  "(8000::int) \<noteq> 0
   \<and> (\<exists>fig. plot_spectrogram (take 513) 8000 [1, 2, 3] = Inr fig
          \<and> ylim fig = (0, 3000) \<and> length (freqs fig) = 513 \<and> last (freqs fig) = 4000
          \<and> spectrum fig \<noteq> []
          \<and> length (hd (spectrum fig)) = 513)"
proof -
  have a: "(8000::int) \<noteq> 0" by simp
  have w: "\<forall>w :: real list. length w = 1024 \<longrightarrow> length (take 513 w) = 513" by simp
  from spectrogram_freq_axis [OF a, of "take 513" "[1, 2, 3]"]
  obtain fig where p: "plot_spectrogram (take 513) 8000 [1, 2, 3] = Inr fig"
    and y: "ylim fig = (0, 3000)"
    and l: "length (freqs fig) = 513"
    and la: "last (freqs fig) = real_of_int 8000 / 2"
    and ne: "spectrum fig \<noteq> []"
    and c: "(\<forall>w :: real list. length w = 1024 \<longrightarrow> length (take 513 w) = 513)
            \<longrightarrow> (\<forall>col \<in> set (spectrum fig). length col = length (freqs fig))"
    by (elim exE conjE)
  from la have la': "last (freqs fig) = 4000" by simp
  from c w have "\<forall>col \<in> set (spectrum fig). length col = length (freqs fig)"
    by (rule mp)
  then have "\<forall>col \<in> set (spectrum fig). length col = 513" by (simp only: l)
  with ne have cl: "length (hd (spectrum fig)) = 513" by simp
  from p y l la' ne cl have "\<exists>fig. plot_spectrogram (take 513) 8000 [1, 2, 3] = Inr fig
          \<and> ylim fig = (0, 3000) \<and> length (freqs fig) = 513 \<and> last (freqs fig) = 4000
          \<and> spectrum fig \<noteq> []
          \<and> length (hd (spectrum fig)) = 513"
    by (intro exI [where x = fig] conjI)
  with a show ?thesis by (intro conjI)
qed

text \<open>
  C8 as stated fails: at a sample rate of 8000 Hz the frequency bins of the spectrogram
  contain 4000 Hz, above 3000 Hz; only the view limit of the axis is (0, 3000).
\<close>

theorem spectrogram_freqs_above_3000:
  "(4000::real) \<in> set (freqs (projr (plot_spectrogram id 8000 (replicate 1024 0))))
   \<and> \<not> (4000::real) \<le> 3000
   \<and> ylim (projr (plot_spectrogram id 8000 (replicate 1024 0))) = (0, 3000)"
proof -
  have a: "(8000::int) \<noteq> 0" by simp
  have "(4000::real) \<in> (\<lambda>k. real k * real_of_int 8000 / 1024) ` {0..<513}"
    by (rule image_eqI [where x = 512]) simp_all
  then have "(4000::real) \<in> set (map (\<lambda>k. real k * real_of_int 8000 / 1024) [0..<513])"
    by (simp only: set_map set_upt)
  then show ?thesis
    unfolding plot_spectrogram_eq [OF a] by (simp del: upt_Suc set_map set_upt)
qed

end
